theory Spec2Isabelle
  imports Main "HOL-Library.Sublist"
begin

section \<open>The translation pipeline of app.py\<close>

text \<open>
  The program is one Streamlit script with two helper functions,
  \<open>convert_markdown_to_pdf_bytes\<close> (the rendering stage) and \<open>process_translation\<close>
  (the transcription stage), and a gate at the bottom of the script (the intake stage).
  Everything the script does is an effect on something outside it: widgets put on the page,
  calls to the Gemini client, to the markdown converter and to the rasteriser, and one
  temporary file. The model threads a \<open>world\<close> through the code: the widgets emitted so
  far, the calls made so far, and the files on disk.

  Strings are byte strings (\<open>char\<close> is eight bits wide), so a Python \<open>str\<close> is its
  UTF-8 encoding and \<open>encode('utf-8')\<close> is the identity.
\<close>

subsection \<open>Data\<close>

type_synonym bytes = string
type_synonym path = string
type_synonym filesystem = "path \<rightharpoonup> bytes"

text \<open>
  A call into a library either returns a value or raises a Python \<open>Exception\<close>;
  \<open>Raises e\<close> carries \<open>str(e)\<close>.
\<close>

datatype 'a outcome = Raises string | Returns 'a

text \<open>Streamlit's \<open>UploadedFile\<close>: the two members the script reads.\<close>

record uploaded_file =
  name :: string
  getvalue :: bytes

text \<open>The \<open>text\<close> attribute of the SDK's response is an optional string.\<close>

record response =
  response_text :: "string option"

text \<open>
  What \<open>pisa.CreatePDF\<close> hands back: the error count of the returned status object and
  the bytes it wrote into the \<open>dest\<close> buffer.
\<close>

record pisa_status =
  err :: nat
  dest :: bytes

text \<open>The widgets the script puts on the page, in the order of the calls.\<close>

datatype widget =
    St_success string
  | St_warning string
  | St_error string
  | St_button string
  | St_spinner string
  | St_subheader string
  | St_markdown string
  | St_download_button string bytes string string

text \<open>The calls the script makes, to its collaborators and to its own two functions.\<close>

datatype event =
    Call_process_translation
  | Genai_Client string
  | Tempfile_create path
  | Tempfile_write path bytes
  | Client_files_upload path
  | Client_generate_content string string string
  | Os_path_exists path
  | Os_remove path
  | Call_convert_markdown_to_pdf_bytes string
  | Markdown_markdown string "string list"
  | Pisa_CreatePDF bytes

record world =
  ui :: "widget list"
  calls :: "event list"
  files :: filesystem

text \<open>
  The collaborators are parameters of the model, and each of them may raise:
  \<^item> \<open>Client\<close> is the constructor \<open>genai.Client(api_key=...)\<close> of line 73;
  \<^item> \<open>NamedTemporaryFile\<close> creates the temporary file and returns its name, given what
    is on disk;
  \<^item> \<open>tmp_file_write\<close> is the rest of the \<open>with\<close> block of lines 76 to 78: writing
    the payload to the file and closing it;
  \<^item> \<open>files_upload\<close> is \<open>client.files.upload\<close> for the client built from the key: it
    reads the file at the path and returns the handle of the uploaded document;
  \<^item> \<open>generate_content\<close> is \<open>client.models.generate_content\<close>, from the key, the
    model identifier, the handle and the prompt;
  \<^item> \<open>markdown\<close> is \<open>markdown.markdown\<close>, from the text and the extension list;
  \<^item> \<open>CreatePDF\<close> is \<open>pisa.CreatePDF\<close>, from the encoded document.
\<close>

record collaborators =
  Client :: "string \<Rightarrow> unit outcome"
  NamedTemporaryFile :: "filesystem \<Rightarrow> path outcome"
  tmp_file_write :: "path \<Rightarrow> bytes \<Rightarrow> unit outcome"
  files_upload :: "string \<Rightarrow> path \<Rightarrow> filesystem \<Rightarrow> string outcome"
  generate_content :: "string \<Rightarrow> string \<Rightarrow> string \<Rightarrow> string \<Rightarrow> response outcome"
  markdown :: "string \<Rightarrow> string list \<Rightarrow> string outcome"
  CreatePDF :: "bytes \<Rightarrow> pisa_status outcome"

definition emit :: "widget list \<Rightarrow> world \<Rightarrow> world" where
  "emit ws w = w\<lparr>ui := ui w @ ws\<rparr>"

definition record_calls :: "event list \<Rightarrow> world \<Rightarrow> world" where
  "record_calls es w = w\<lparr>calls := calls w @ es\<rparr>"

subsection \<open>The rendering stage: \<open>convert_markdown_to_pdf_bytes\<close>\<close>

definition nl :: string where
  "nl = [CHR 0x0A]"

definition css_page :: string where
  \<open>css_page = ''@page { size: A4; margin: 2cm; }''\<close>

definition css_body :: string where
  \<open>css_body = ''body { font-family: Helvetica, sans-serif; font-size: 11pt; line-height: 1.6; color: #333; }''\<close>

definition css_h1 :: string where
  \<open>css_h1 = ''h1 { color: #ffffff; background-color: #2c3e50; padding: 15px; text-align: center; }''\<close>

definition css_h2 :: string where
  \<open>css_h2 = ''h2 { color: #2980b9; border-bottom: 2px solid #ecf0f1; padding-bottom: 5px; margin-top: 20px; }''\<close>

definition css_h3 :: string where
  \<open>css_h3 = ''h3 { color: #16a085; font-weight: bold; margin-top: 15px; }''\<close>

definition css_lists :: string where
  \<open>css_lists = ''ul, ol { margin-bottom: 12px; padding-left: 20px; }''\<close>

definition css_li :: string where
  \<open>css_li = ''li { margin-bottom: 6px; }''\<close>

definition css_blockquote :: string where
  \<open>css_blockquote = ''blockquote { background-color: #f9f9f9; border-left: 4px solid #bdc3c7; margin: 15px 0; padding: 10px; font-style: italic; }''\<close>

definition css_code :: string where
  \<open>css_code = ''code { background-color: #f4f4f4; padding: 2px 4px; font-family: Courier; }''\<close>

text \<open>
  The f-string of lines 31 to 52, cut at \<open>{html_body}\<close>: the text before the
  placeholder and the text after it. The doubled braces of the source are single braces in
  the value. \<open>stylesheet\<close> is the content of the \<open>style\<close> element.
\<close>

definition stylesheet :: string where
  \<open>stylesheet =
     nl @ ''            '' @ css_page @
     nl @ ''            '' @ css_body @
     nl @ ''            '' @ css_h1 @
     nl @ ''            '' @ css_h2 @
     nl @ ''            '' @ css_h3 @
     nl @ ''            '' @ css_lists @
     nl @ ''            '' @ css_li @
     nl @ ''            '' @ css_blockquote @
     nl @ ''            '' @ css_code @
     nl @ ''        ''\<close>

definition template_head :: string where
  \<open>template_head =
     nl @ ''    <!DOCTYPE html>'' @
     nl @ ''    <html>'' @
     nl @ ''    <head>'' @
     nl @ ''        <meta charset="utf-8">'' @
     nl @ ''        <style>'' @ stylesheet @ ''</style>'' @
     nl @ ''    </head>'' @
     nl @ ''    <body>'' @
     nl @ ''        ''\<close>

definition template_tail :: string where
  \<open>template_tail =
     nl @ ''    </body>'' @
     nl @ ''    </html>'' @
     nl @ ''    ''\<close>

definition html_content :: "string \<Rightarrow> string" where
  "html_content html_body = template_head @ html_body @ template_tail"

text \<open>
  \<open>if not markdown_text\<close> is the test for the empty string. The \<open>BytesIO\<close> that the
  function returns is modelled by its contents; \<open>None\<close> is \<open>None\<close>.
\<close>

definition convert_markdown_to_pdf_bytes ::
  "collaborators \<Rightarrow> string \<Rightarrow> world \<Rightarrow> bytes option outcome \<times> world" where
  "convert_markdown_to_pdf_bytes c markdown_text w =
     (if markdown_text = [] then (Returns None, w)
      else
        let w1 = record_calls [Markdown_markdown markdown_text [''extra'', ''nl2br'']] w in
        case markdown c markdown_text [''extra'', ''nl2br''] of
          Raises e \<Rightarrow> (Raises e, w1)
        | Returns html_body \<Rightarrow>
            let w2 = record_calls [Pisa_CreatePDF (html_content html_body)] w1 in
            (case CreatePDF c (html_content html_body) of
               Raises e \<Rightarrow> (Raises e, w2)
             | Returns pisa_status \<Rightarrow>
                 if err pisa_status \<noteq> 0 then (Returns None, w2)
                 else (Returns (Some (dest pisa_status)), w2)))"

subsection \<open>The transcription stage: \<open>process_translation\<close>\<close>

definition prompt :: string where
  \<open>prompt =
     nl @ ''            You are an expert translator. The document contains handwritten notes (likely in Gujarati).'' @
     nl @ ''            1. Read the handwriting carefully.'' @
     nl @ ''            2. Translate the content directly into English.'' @
     nl @ ''            3. Formatting: '' @
     nl @ ''               - Start with a Level 1 Header (# Title) for the Main Topic.'' @
     nl @ ''               - Use Level 2 Headers (##) for sub-sections.'' @
     nl @ ''               - Use bullet points for lists.'' @
     nl @ ''               - Convert diagrams to nested lists.'' @
     nl @ ''            4. Do not include original text, only English.'' @
     nl @ ''            ''\<close>

text \<open>
  Lines 76 to 78. The temporary file is created with \<open>delete=False\<close>, so leaving the
  \<open>with\<close> block does not delete it, whether the block is left normally or by an
  exception. When the creation raises there is no file. When the write or the close raises,
  the file that was created stays on disk; the model keeps it with no content.
\<close>

definition stage_payload ::
  "collaborators \<Rightarrow> uploaded_file \<Rightarrow> world \<Rightarrow> path outcome \<times> world" where
  "stage_payload c uploaded_file w =
     (case NamedTemporaryFile c (files w) of
        Raises e \<Rightarrow> (Raises e, w)
      | Returns tmp_file_path \<Rightarrow>
          let w1 = record_calls [Tempfile_create tmp_file_path,
                                 Tempfile_write tmp_file_path (getvalue uploaded_file)]
                     (w\<lparr>files := (files w)(tmp_file_path \<mapsto> [])\<rparr>) in
          (case tmp_file_write c tmp_file_path (getvalue uploaded_file) of
             Raises e \<Rightarrow> (Raises e, w1)
           | Returns u \<Rightarrow>
               (Returns tmp_file_path,
                w1\<lparr>files := (files w1)(tmp_file_path \<mapsto> getvalue uploaded_file)\<rparr>)))"

text \<open>
  Lines 73 to 78, everything in front of the \<open>try\<close>: the client is built, then the
  payload is staged. An exception here is caught by nothing in the function.
\<close>

definition before_try ::
  "collaborators \<Rightarrow> string \<Rightarrow> uploaded_file \<Rightarrow> world \<Rightarrow> path outcome \<times> world" where
  "before_try c api_key uploaded_file w =
     (case Client c api_key of
        Raises e \<Rightarrow> (Raises e, record_calls [Genai_Client api_key] w)
      | Returns client \<Rightarrow> stage_payload c uploaded_file (record_calls [Genai_Client api_key] w))"

text \<open>
  The body of the \<open>try\<close>, lines 81 to 107. A fault of either remote call leaves the
  block at once.
\<close>

definition try_body ::
  "collaborators \<Rightarrow> string \<Rightarrow> path \<Rightarrow> world \<Rightarrow> string option outcome \<times> world" where
  "try_body c api_key tmp_file_path w =
     (let w1 = record_calls [Client_files_upload tmp_file_path]
                 (emit [St_spinner ''Uploading PDF to Gemini...''] w) in
      case files_upload c api_key tmp_file_path (files w) of
        Raises e \<Rightarrow> (Raises e, w1)
      | Returns file_ref \<Rightarrow>
          let w2 = record_calls [Client_generate_content ''gemini-2.5-flash'' file_ref prompt]
                     (emit [St_spinner ''Translating handwritten notes... (Using Gemini 2.5 Flash)''] w1) in
          (case generate_content c api_key ''gemini-2.5-flash'' file_ref prompt of
             Raises e \<Rightarrow> (Raises e, w2)
           | Returns response \<Rightarrow> (Returns (response_text response), w2)))"

text \<open>The \<open>except Exception as e\<close> clause, lines 109 to 111.\<close>

definition except_clause :: "string option outcome \<times> world \<Rightarrow> string option \<times> world" where
  "except_clause r =
     (case r of
        (Raises e, w) \<Rightarrow> (None, emit [St_error (''An error occurred: '' @ e)] w)
      | (Returns t, w) \<Rightarrow> (t, w))"

text \<open>The \<open>finally\<close> clause, lines 112 to 115.\<close>

definition finally_clause :: "path \<Rightarrow> world \<Rightarrow> world" where
  "finally_clause tmp_file_path w =
     (let w1 = record_calls [Os_path_exists tmp_file_path] w in
      if files w1 tmp_file_path \<noteq> None
      then record_calls [Os_remove tmp_file_path] (w1\<lparr>files := (files w1)(tmp_file_path := None)\<rparr>)
      else w1)"

text \<open>
  The whole function. Only when lines 73 to 78 have completed is the \<open>try\<close> entered,
  and only then does the \<open>finally\<close> clause run.
\<close>

definition process_translation ::
  "collaborators \<Rightarrow> string \<Rightarrow> uploaded_file \<Rightarrow> world \<Rightarrow> string option outcome \<times> world" where
  "process_translation c api_key uploaded_file w =
     (case before_try c api_key uploaded_file w of
        (Raises e, w1) \<Rightarrow> (Raises e, w1)
      | (Returns tmp_file_path, w1) \<Rightarrow>
          let (r, w2) = except_clause (try_body c api_key tmp_file_path w1)
          in (Returns r, finally_clause tmp_file_path w2))"

subsection \<open>The script below the widgets, lines 133 to 157\<close>

text \<open>
  The inputs of one run are the value of the key field (the empty string when nothing was
  typed), the uploaded file (\<open>None\<close> when there is none) and whether the button was
  pressed. The title, the captions and the sidebar above line 133 are the same on every run
  and are left out. An exception that no handler catches ends the run; it is the script's
  \<open>Raises\<close>. The test \<open>if translation_text\<close> is on an optional string, false for
  \<open>None\<close> and for the empty string; the test \<open>if pdf_bytes\<close> is on \<open>None\<close> or a
  \<open>BytesIO\<close> object, which is true whatever it holds.
\<close>

definition download_label :: string where
  "download_label = [CHR 0xF0, CHR 0x9F, CHR 0x93, CHR 0xA5] @ '' Download Translated PDF''"

definition truthy :: "string option \<Rightarrow> bool" where
  "truthy t = (case t of None \<Rightarrow> False | Some s \<Rightarrow> s \<noteq> [])"

definition script ::
  "collaborators \<Rightarrow> string \<Rightarrow> uploaded_file option \<Rightarrow> bool \<Rightarrow> world \<Rightarrow> unit outcome \<times> world" where
  "script c api_key uploaded_file button w =
     (if uploaded_file \<noteq> None \<and> api_key \<noteq> [] then
        let w1 = emit [St_success (''File uploaded: '' @ name (the uploaded_file)),
                       St_button ''Translate & Convert''] w in
        if button then
          case process_translation c api_key (the uploaded_file)
                 (record_calls [Call_process_translation] w1) of
            (Raises e, w2) \<Rightarrow> (Raises e, w2)
          | (Returns translation_text, w2) \<Rightarrow>
              if truthy translation_text then
                let w3 = record_calls [Call_convert_markdown_to_pdf_bytes (the translation_text)]
                           (emit [St_subheader ''Translation Preview'',
                                  St_markdown (the translation_text)] w2) in
                case convert_markdown_to_pdf_bytes c (the translation_text) w3 of
                  (Raises e, w4) \<Rightarrow> (Raises e, w4)
                | (Returns (Some pdf_bytes), w4) \<Rightarrow>
                    (Returns (),
                     emit [St_success ''PDF Generated Successfully!'',
                           St_download_button download_label pdf_bytes
                             ''Translated_Notes.pdf'' ''application/pdf''] w4)
                | (Returns None, w4) \<Rightarrow>
                    (Returns (), emit [St_error ''Failed to generate PDF layout.''] w4)
              else (Returns (), w2)
        else (Returns (), w1)
      else if uploaded_file \<noteq> None \<and> \<not> (api_key \<noteq> []) then
        (Returns (),
         emit [St_warning ''Please enter your Gemini API Key in the sidebar to proceed.''] w)
      else (Returns (), w))"

definition start :: world where
  "start = \<lparr>ui = [], calls = [], files = Map.empty\<rparr>"

subsection \<open>Observations on a run\<close>

text \<open>Which widgets and which calls the properties below speak about.\<close>

fun is_preview :: "widget \<Rightarrow> bool" where
  "is_preview (St_subheader _) = True"
| "is_preview (St_markdown _) = True"
| "is_preview _ = False"

fun is_download :: "widget \<Rightarrow> bool" where
  "is_download (St_download_button _ _ _ _) = True"
| "is_download _ = False"

fun is_render_call :: "event \<Rightarrow> bool" where
  "is_render_call (Call_convert_markdown_to_pdf_bytes _) = True"
| "is_render_call (Markdown_markdown _ _) = True"
| "is_render_call (Pisa_CreatePDF _) = True"
| "is_render_call _ = False"

subsection \<open>Stand-ins for the collaborators\<close>

text \<open>
  Small deterministic collaborators on which the script can be run: the client refuses an
  empty key, the temporary file gets a fixed name, the upload succeeds when the staged file
  is on disk, the service answers with a short markdown text, the converter knows the one
  extension list and wraps the text in a paragraph, and the rasteriser returns the document
  behind a header.
\<close>

definition stub_pisa :: "string \<Rightarrow> bytes \<Rightarrow> pisa_status outcome" where
  "stub_pisa stamp doc = Returns \<lparr>err = 0, dest = ''%PDF '' @ stamp @ '';'' @ doc\<rparr>"

definition stub :: collaborators where
  "stub = \<lparr>Client = (\<lambda>key. if key = [] then Raises ''Missing key inputs argument!''
                           else Returns ()),
           NamedTemporaryFile = (\<lambda>fs. Returns ''/tmp/tmpk3x9.pdf''),
           tmp_file_write = (\<lambda>p d. Returns ()),
           files_upload = (\<lambda>key p fs. case fs p of None \<Rightarrow> Raises ''No such file''
                                               | Some d \<Rightarrow> Returns ''files/abc''),
           generate_content = (\<lambda>key model file_ref p. Returns \<lparr>response_text = Some ''# Title''\<rparr>),
           markdown = (\<lambda>t exts. if exts = [''extra'', ''nl2br'']
                                  then Returns (''<p>'' @ t @ ''</p>'')
                                  else Raises ''unexpected extension list''),
           CreatePDF = stub_pisa ''0001''\<rparr>"

text \<open>The same collaborators with one of them misbehaving.\<close>

definition full_disk :: collaborators where
  "full_disk = stub\<lparr>tmp_file_write := (\<lambda>p d. Raises ''No space left on device'')\<rparr>"

definition offline :: collaborators where
  "offline = stub\<lparr>files_upload := (\<lambda>key p fs. Raises ''network unreachable'')\<rparr>"

definition refusing :: collaborators where
  "refusing = stub\<lparr>generate_content := (\<lambda>key model file_ref p. Raises ''429 quota exceeded'')\<rparr>"

definition mute :: collaborators where
  "mute = stub\<lparr>generate_content := (\<lambda>key model file_ref p. Returns \<lparr>response_text = Some []\<rparr>)\<rparr>"

definition faulty :: collaborators where
  "faulty = stub\<lparr>CreatePDF := (\<lambda>doc. Returns \<lparr>err = 1, dest = ''%PDF-trunc''\<rparr>)\<rparr>"


definition handwritten :: uploaded_file where
  "handwritten = \<lparr>name = ''notes.pdf'', getvalue = ''%PDF-1.4''\<rparr>"

definition empty_upload :: uploaded_file where
  "empty_upload = \<lparr>name = ''empty.pdf'', getvalue = []\<rparr>"

section \<open>Effects of the stages\<close>

lemma world_simps [simp]:
  "ui (emit ws w) = ui w @ ws" "calls (emit ws w) = calls w" "files (emit ws w) = files w"
  "ui (record_calls es w) = ui w" "calls (record_calls es w) = calls w @ es"
  "files (record_calls es w) = files w"
  by (simp_all add: emit_def record_calls_def)

lemmas stage_defs = process_translation_def before_try_def stage_payload_def try_body_def
  except_clause_def finally_clause_def Let_def

lemma try_body_files: "files (snd (try_body c k p w)) = files w"
  by (simp add: try_body_def Let_def split: outcome.splits)

lemma try_body_removes:
  "count_list (calls (snd (try_body c k p w))) (Os_remove q) = count_list (calls w) (Os_remove q)"
  by (simp add: try_body_def Let_def split: outcome.splits)

lemma except_clause_files: "files (snd (except_clause r)) = files (snd r)"
  by (simp add: except_clause_def split: prod.splits outcome.splits)

lemma except_clause_calls: "calls (snd (except_clause r)) = calls (snd r)"
  by (simp add: except_clause_def split: prod.splits outcome.splits)

lemma finally_clause_present:
  "files w p \<noteq> None \<Longrightarrow>
     files (finally_clause p w) p = None \<and>
     calls (finally_clause p w) = calls w @ [Os_path_exists p, Os_remove p]"
  by (simp add: finally_clause_def Let_def)

lemma before_try_staged:
  "before_try c k u w = (Returns p, w1) \<Longrightarrow>
     files w1 p = Some (getvalue u) \<and>
     calls w1 = calls w @ [Genai_Client k, Tempfile_create p, Tempfile_write p (getvalue u)]"
  by (auto simp: before_try_def stage_payload_def Let_def split: outcome.splits)

text \<open>
  Once lines 73 to 78 have completed with the staged path \<open>p\<close>, the call returns, no
  file is left at \<open>p\<close>, the trace holds exactly one more removal of \<open>p\<close> than before,
  and the removal is the last action: the \<open>finally\<close> clause does its work whatever the
  remote calls do.
\<close>

lemma cleanup_when_staged:
  assumes bt: "before_try c k u w = (Returns p, w1)"
  shows "(\<exists>r. fst (process_translation c k u w) = Returns r)
       \<and> files (snd (process_translation c k u w)) p = None
       \<and> count_list (calls (snd (process_translation c k u w))) (Os_remove p)
          = Suc (count_list (calls w) (Os_remove p))
       \<and> last (calls (snd (process_translation c k u w))) = Os_remove p"
proof -
  obtain r w2 where ex: "except_clause (try_body c k p w1) = (r, w2)"
    by (cases "except_clause (try_body c k p w1)")
  from before_try_staged [OF bt]
  have f1: "files w1 p = Some (getvalue u)"
    and c1: "calls w1 = calls w @ [Genai_Client k, Tempfile_create p, Tempfile_write p (getvalue u)]"
    by blast+
  have w2: "w2 = snd (except_clause (try_body c k p w1))" using ex by simp
  have f2: "files w2 = files w1"
    by (simp add: w2 except_clause_files try_body_files)
  have c2: "count_list (calls w2) (Os_remove p) = count_list (calls w) (Os_remove p)"
    by (simp add: w2 except_clause_calls try_body_removes c1)
  have fin: "files (finally_clause p w2) p = None"
    "calls (finally_clause p w2) = calls w2 @ [Os_path_exists p, Os_remove p]"
    using finally_clause_present [of w2 p] f1 f2 by simp_all
  have res: "process_translation c k u w = (Returns r, finally_clause p w2)"
    by (simp add: process_translation_def bt ex)
  show ?thesis
    unfolding res using fin c2 by simp
qed

lemma process_translation_calls:
  "prefix (calls w) (calls (snd (process_translation c k u w)))"
  by (simp add: stage_defs split: outcome.splits prod.splits)

text \<open>
  What the rendering stage returns depends on its collaborators and on the text, not on
  the world it is called in; and it puts nothing on the page.
\<close>

lemma render_result_independent:
  "fst (convert_markdown_to_pdf_bytes c t w) = fst (convert_markdown_to_pdf_bytes c t w')"
  by (simp add: convert_markdown_to_pdf_bytes_def Let_def split: outcome.splits)

lemma render_ui: "ui (snd (convert_markdown_to_pdf_bytes c t w)) = ui w"
  by (simp add: convert_markdown_to_pdf_bytes_def Let_def split: outcome.splits)

lemma render_calls: "prefix (calls w) (calls (snd (convert_markdown_to_pdf_bytes c t w)))"
  by (simp add: convert_markdown_to_pdf_bytes_def Let_def split: outcome.splits)

lemma sublist_skip: "sublist xs ys \<Longrightarrow> sublist xs (ps @ ys)"
  unfolding sublist_def by (metis append.assoc)

lemma sublist_here: "sublist xs (xs @ ss)"
  by simp

lemma rules_in_stylesheet:
  "sublist css_page stylesheet" "sublist css_body stylesheet" "sublist css_h1 stylesheet"
  "sublist css_h2 stylesheet" "sublist css_h3 stylesheet" "sublist css_blockquote stylesheet"
  "sublist css_code stylesheet"
  unfolding stylesheet_def by (rule sublist_here | rule sublist_skip)+

lemma stylesheet_in_head: "sublist (''<style>'' @ stylesheet @ ''</style>'') template_head"
proof -
  have "template_head =
     (nl @ ''    <!DOCTYPE html>'' @ nl @ ''    <html>'' @ nl @ ''    <head>'' @
      nl @ ''        <meta charset=\"utf-8\">'' @ nl @ ''        '')
     @ (''<style>'' @ stylesheet @ ''</style>'')
     @ (nl @ ''    </head>'' @ nl @ ''    <body>'' @ nl @ ''        '')"
    by (simp add: template_head_def)
  then show ?thesis
    by (metis sublist_appendI)
qed

section \<open>Properties of the pipeline\<close>

subsection \<open>The staging file\<close>

text \<open>
  C1. The claim asks that after every call of \<open>process_translation\<close> the staging file is
  gone. The code falls short of it on one path. The \<open>with\<close> block that creates the file
  with \<open>delete=False\<close> and writes the payload stands in front of the \<open>try\<close>: when
  the client has been built, the file has been created at \<open>p\<close> and the write (or the
  close) raises \<open>e\<close>, the call ends with \<open>e\<close>, the file is still at \<open>p\<close>, and no
  removal of \<open>p\<close> has been made. On the paths that reach the \<open>try\<close> the file is
  removed exactly once, whatever the remote calls do (\<open>cleanup_when_staged\<close>).
\<close>

theorem failed_staging_leaves_file:
  assumes "Client c k = Returns ()"
    and "NamedTemporaryFile c (files w) = Returns p"
    and "tmp_file_write c p (getvalue u) = Raises e"
  shows "fst (process_translation c k u w) = Raises e
       \<and> files (snd (process_translation c k u w)) p \<noteq> None
       \<and> count_list (calls (snd (process_translation c k u w))) (Os_remove p)
          = count_list (calls w) (Os_remove p)"
  using assms by (simp add: stage_defs)

theorem failed_staging_leaves_file_witness:
  "fst (process_translation full_disk ''key'' handwritten start) = Raises ''No space left on device''
   \<and> files (snd (process_translation full_disk ''key'' handwritten start)) ''/tmp/tmpk3x9.pdf'' \<noteq> None
   \<and> count_list (calls (snd (process_translation full_disk ''key'' handwritten start)))
        (Os_remove ''/tmp/tmpk3x9.pdf'') = 0
   \<and> files start ''/tmp/tmpk3x9.pdf'' = None"
proof -
  have cl: "Client full_disk ''key'' = Returns ()"
    by (simp add: full_disk_def stub_def)
  have tmp: "NamedTemporaryFile full_disk (files start) = Returns ''/tmp/tmpk3x9.pdf''"
    by (simp add: full_disk_def stub_def)
  have wr: "tmp_file_write full_disk ''/tmp/tmpk3x9.pdf'' (getvalue handwritten)
              = Raises ''No space left on device''"
    by (simp add: full_disk_def)
  from failed_staging_leaves_file [OF cl tmp wr]
  show ?thesis by (simp add: start_def)
qed

subsection \<open>The rendering stage\<close>

text \<open>
  C3. For the empty markdown text \<open>convert_markdown_to_pdf_bytes\<close> returns \<open>None\<close>, its
  failure value, and leaves the world as it found it: neither the markdown converter nor
  the rasteriser is called.
\<close>

theorem render_empty_returns_none:
  "convert_markdown_to_pdf_bytes c [] w = (Returns None, w)"
  by (simp add: convert_markdown_to_pdf_bytes_def)

theorem render_empty_returns_none_witness:
  "convert_markdown_to_pdf_bytes stub [] start = (Returns None, start)
   \<and> filter is_render_call (calls (snd (convert_markdown_to_pdf_bytes stub [] start))) = []"
  using render_empty_returns_none [of stub start] by (simp add: start_def)




subsection \<open>Failures of the transcription stage\<close>

text \<open>
  C4. Let the remote call be reached: the client is built, the temporary file is created
  at \<open>p\<close> and the payload written. When then the upload raises, or the upload returns
  and the generation raises, with message \<open>e\<close>: \<open>process_translation\<close> returns
  \<open>None\<close>, not a text, and the last widget it puts on the page is the error message that
  carries \<open>e\<close>. The script then ends normally with that message as the last widget; it
  makes no call of the rendering stage and shows no translation preview and no download
  button.
\<close>

theorem transcription_fault_is_failure:
  assumes key: "k \<noteq> []"
    and client: "Client c k = Returns ()"
    and tmp: "NamedTemporaryFile c (files w) = Returns p"
    and staged: "tmp_file_write c p (getvalue u) = Returns ()"
    and fault: "files_upload c k p ((files w)(p \<mapsto> getvalue u)) = Raises e
                \<or> (\<exists>file_ref.
                     files_upload c k p ((files w)(p \<mapsto> getvalue u)) = Returns file_ref
                     \<and> generate_content c k ''gemini-2.5-flash'' file_ref prompt = Raises e)"
  shows "fst (process_translation c k u w) = Returns None
       \<and> last (ui (snd (process_translation c k u w))) = St_error (''An error occurred: '' @ e)
       \<and> fst (script c k (Some u) True w) = Returns ()
       \<and> last (ui (snd (script c k (Some u) True w))) = St_error (''An error occurred: '' @ e)
       \<and> filter is_render_call (calls (snd (script c k (Some u) True w))) = filter is_render_call (calls w)
       \<and> filter is_preview (ui (snd (script c k (Some u) True w))) = filter is_preview (ui w)
       \<and> filter is_download (ui (snd (script c k (Some u) True w))) = filter is_download (ui w)"
  using fault
proof
  assume up: "files_upload c k p ((files w)(p \<mapsto> getvalue u)) = Raises e"
  show ?thesis
    using key by (simp add: script_def stage_defs truthy_def client tmp staged up)
next
  assume "\<exists>file_ref.
            files_upload c k p ((files w)(p \<mapsto> getvalue u)) = Returns file_ref
            \<and> generate_content c k ''gemini-2.5-flash'' file_ref prompt = Raises e"
  then obtain file_ref where
    up: "files_upload c k p ((files w)(p \<mapsto> getvalue u)) = Returns file_ref"
    and gen: "generate_content c k ''gemini-2.5-flash'' file_ref prompt = Raises e"
    by blast
  show ?thesis
    using key by (simp add: script_def stage_defs truthy_def client tmp staged up gen)
qed

theorem transcription_fault_is_failure_witness:
  "fst (process_translation refusing ''key'' handwritten start) = Returns None
   \<and> fst (script refusing ''key'' (Some handwritten) True start) = Returns ()
   \<and> last (ui (snd (script refusing ''key'' (Some handwritten) True start)))
       = St_error ''An error occurred: 429 quota exceeded''
   \<and> filter is_render_call (calls (snd (script refusing ''key'' (Some handwritten) True start))) = []
   \<and> filter is_preview (ui (snd (script refusing ''key'' (Some handwritten) True start))) = []"
proof -
  have key: "''key'' \<noteq> []" by simp
  have client: "Client refusing ''key'' = Returns ()"
    by (simp add: refusing_def stub_def)
  have tmp: "NamedTemporaryFile refusing (files start) = Returns ''/tmp/tmpk3x9.pdf''"
    by (simp add: refusing_def stub_def)
  have staged: "tmp_file_write refusing ''/tmp/tmpk3x9.pdf'' (getvalue handwritten) = Returns ()"
    by (simp add: refusing_def stub_def)
  have fault: "files_upload refusing ''key'' ''/tmp/tmpk3x9.pdf''
                  ((files start)(''/tmp/tmpk3x9.pdf'' \<mapsto> getvalue handwritten))
                 = Raises ''429 quota exceeded''
                \<or> (\<exists>file_ref.
                     files_upload refusing ''key'' ''/tmp/tmpk3x9.pdf''
                       ((files start)(''/tmp/tmpk3x9.pdf'' \<mapsto> getvalue handwritten))
                      = Returns file_ref
                     \<and> generate_content refusing ''key'' ''gemini-2.5-flash'' file_ref prompt
                      = Raises ''429 quota exceeded'')"
    by (simp add: refusing_def stub_def)
  from transcription_fault_is_failure [OF key client tmp staged fault]
  show ?thesis by (simp add: start_def)
qed

text \<open>
  C10. Let the remote call be reached as before. When both remote calls return and the
  text of the response is the empty string, the script ends normally; the page holds the
  upload notice, the button and the two spinners, hence no error message, no preview and
  no download button; and no call of the rendering stage is made.
\<close>

theorem empty_translation_is_silent:
  assumes key: "k \<noteq> []"
    and client: "Client c k = Returns ()"
    and tmp: "NamedTemporaryFile c (files w) = Returns p"
    and staged: "tmp_file_write c p (getvalue u) = Returns ()"
    and up: "files_upload c k p ((files w)(p \<mapsto> getvalue u)) = Returns file_ref"
    and gen: "generate_content c k ''gemini-2.5-flash'' file_ref prompt = Returns resp"
    and empty: "response_text resp = Some []"
  shows "fst (script c k (Some u) True w) = Returns ()
       \<and> ui (snd (script c k (Some u) True w)) =
           ui w @ [St_success (''File uploaded: '' @ name u), St_button ''Translate & Convert'',
                   St_spinner ''Uploading PDF to Gemini...'',
                   St_spinner ''Translating handwritten notes... (Using Gemini 2.5 Flash)'']
       \<and> filter is_render_call (calls (snd (script c k (Some u) True w))) = filter is_render_call (calls w)"
  using key by (simp add: script_def stage_defs truthy_def client tmp staged up gen empty)

theorem empty_translation_is_silent_witness:
  "fst (script mute ''key'' (Some handwritten) True start) = Returns ()
   \<and> ui (snd (script mute ''key'' (Some handwritten) True start)) =
       [St_success ''File uploaded: notes.pdf'', St_button ''Translate & Convert'',
        St_spinner ''Uploading PDF to Gemini...'',
        St_spinner ''Translating handwritten notes... (Using Gemini 2.5 Flash)'']
   \<and> filter is_render_call (calls (snd (script mute ''key'' (Some handwritten) True start))) = []"
proof -
  have key: "''key'' \<noteq> []" by simp
  have client: "Client mute ''key'' = Returns ()"
    by (simp add: mute_def stub_def)
  have tmp: "NamedTemporaryFile mute (files start) = Returns ''/tmp/tmpk3x9.pdf''"
    by (simp add: mute_def stub_def)
  have staged: "tmp_file_write mute ''/tmp/tmpk3x9.pdf'' (getvalue handwritten) = Returns ()"
    by (simp add: mute_def stub_def)
  have up: "files_upload mute ''key'' ''/tmp/tmpk3x9.pdf''
               ((files start)(''/tmp/tmpk3x9.pdf'' \<mapsto> getvalue handwritten))
              = Returns ''files/abc''"
    by (simp add: mute_def stub_def)
  have gen: "generate_content mute ''key'' ''gemini-2.5-flash'' ''files/abc'' prompt
              = Returns \<lparr>response_text = Some []\<rparr>"
    by (simp add: mute_def)
  have empty: "response_text \<lparr>response_text = Some []\<rparr> = Some []" by simp
  from empty_translation_is_silent [OF key client tmp staged up gen empty]
  show ?thesis by (simp add: start_def handwritten_def)
qed

subsection \<open>A failure of the rendering stage after a translation\<close>

text \<open>
  C6. When \<open>process_translation\<close> has returned a non-empty text \<open>t\<close> and the rendering of
  \<open>t\<close> fails (it returns \<open>None\<close> or raises), the page at the end of the run is the page
  as the transcription left it, followed by the preview heading and the text \<open>t\<close>,
  followed by the layout error message when the rendering returned \<open>None\<close> and by nothing
  when it raised. Nothing shown before is removed, the text is shown, and no download
  button is.
\<close>

theorem translation_survives_render_failure:
  assumes key: "k \<noteq> []"
    and tr: "process_translation c k u
               (record_calls [Call_process_translation]
                  (emit [St_success (''File uploaded: '' @ name u), St_button ''Translate & Convert''] w))
             = (Returns (Some t), w2)"
    and t: "t \<noteq> []"
    and fail: "fst (convert_markdown_to_pdf_bytes c t w2) = Returns None
             \<or> fst (convert_markdown_to_pdf_bytes c t w2) = Raises e"
  shows "ui (snd (script c k (Some u) True w)) =
           ui w2 @ [St_subheader ''Translation Preview'', St_markdown t]
                @ (if fst (convert_markdown_to_pdf_bytes c t w2) = Returns None
                   then [St_error ''Failed to generate PDF layout.''] else [])"
proof -
  let ?w3 = "record_calls [Call_convert_markdown_to_pdf_bytes t]
               (emit [St_subheader ''Translation Preview'', St_markdown t] w2)"
  obtain r w4 where cv: "convert_markdown_to_pdf_bytes c t ?w3 = (r, w4)"
    by (cases "convert_markdown_to_pdf_bytes c t ?w3")
  have r: "r = fst (convert_markdown_to_pdf_bytes c t w2)"
    using cv render_result_independent [of c t ?w3 w2] by simp
  have u4: "ui w4 = ui w2 @ [St_subheader ''Translation Preview'', St_markdown t]"
    using cv render_ui [of c t ?w3] by simp
  from fail r have "r = Returns None \<or> r = Raises e" by simp
  then show ?thesis
  proof
    assume "r = Returns None"
    then show ?thesis
      using key t r u4 tr cv by (simp add: script_def truthy_def)
  next
    assume "r = Raises e"
    then show ?thesis
      using key t r u4 tr cv by (simp add: script_def truthy_def)
  qed
qed

theorem translation_survives_render_failure_witness:
  "ui (snd (script faulty ''key'' (Some handwritten) True start)) =
     [St_success ''File uploaded: notes.pdf'', St_button ''Translate & Convert'',
      St_spinner ''Uploading PDF to Gemini...'',
      St_spinner ''Translating handwritten notes... (Using Gemini 2.5 Flash)'',
      St_subheader ''Translation Preview'', St_markdown ''# Title'',
      St_error ''Failed to generate PDF layout.'']"
proof -
  let ?w1 = "record_calls [Call_process_translation]
               (emit [St_success (''File uploaded: '' @ name handwritten),
                      St_button ''Translate & Convert''] start)"
  let ?w2 = "snd (process_translation faulty ''key'' handwritten ?w1)"
  have key: "''key'' \<noteq> []" by simp
  have "fst (process_translation faulty ''key'' handwritten ?w1) = Returns (Some ''# Title'')"
    by (simp add: stage_defs faulty_def stub_def)
  then have tr: "process_translation faulty ''key'' handwritten ?w1 = (Returns (Some ''# Title''), ?w2)"
    by (simp add: prod_eq_iff)
  have t: "''# Title'' \<noteq> []" by simp
  have none: "fst (convert_markdown_to_pdf_bytes faulty ''# Title'' ?w2) = Returns None"
    by (simp add: convert_markdown_to_pdf_bytes_def Let_def faulty_def stub_def)
  then have fail: "fst (convert_markdown_to_pdf_bytes faulty ''# Title'' ?w2) = Returns None
             \<or> fst (convert_markdown_to_pdf_bytes faulty ''# Title'' ?w2) = Raises []"
    by simp
  have page: "ui ?w2 = [St_success ''File uploaded: notes.pdf'', St_button ''Translate & Convert'',
      St_spinner ''Uploading PDF to Gemini...'',
      St_spinner ''Translating handwritten notes... (Using Gemini 2.5 Flash)'']"
    by (simp add: stage_defs faulty_def stub_def start_def handwritten_def)
  from translation_survives_render_failure [OF key tr t fail] none page
  show ?thesis by simp
qed

subsection \<open>What the rendering stage does with its collaborators\<close>

text \<open>
  C7. For a non-empty text the result of the rendering stage is made from the answer of
  the markdown converter to that text with the extension list \<open>['extra', 'nl2br']\<close>:
  when that conversion raises, the function raises the same exception after this one call;
  when it returns a body, the function returns what the rasteriser makes of the document
  built around that body, after the conversion and the rasterisation and no other call.
  Exactly this extension list is used: a converter that answers alike on this text with
  this list gives the same result, whatever it would answer on other lists.
\<close>

theorem markdown_extensions:
  assumes "m \<noteq> []"
  shows "(\<forall>e. markdown c m [''extra'', ''nl2br''] = Raises e \<longrightarrow>
            convert_markdown_to_pdf_bytes c m w
              = (Raises e, record_calls [Markdown_markdown m [''extra'', ''nl2br'']] w))
       \<and> (\<forall>html_body. markdown c m [''extra'', ''nl2br''] = Returns html_body \<longrightarrow>
            fst (convert_markdown_to_pdf_bytes c m w)
              = (case CreatePDF c (html_content html_body) of
                   Raises e \<Rightarrow> Raises e
                 | Returns status \<Rightarrow>
                     if err status \<noteq> 0 then Returns None else Returns (Some (dest status)))
            \<and> calls (snd (convert_markdown_to_pdf_bytes c m w))
              = calls w @ [Markdown_markdown m [''extra'', ''nl2br''],
                           Pisa_CreatePDF (html_content html_body)])
       \<and> (\<forall>c'. markdown c' m [''extra'', ''nl2br''] = markdown c m [''extra'', ''nl2br'']
                 \<and> CreatePDF c' = CreatePDF c \<longrightarrow>
            fst (convert_markdown_to_pdf_bytes c' m w) = fst (convert_markdown_to_pdf_bytes c m w))"
  using assms
  by (simp add: convert_markdown_to_pdf_bytes_def Let_def split: outcome.splits)

text \<open>
  On the stand-in, whose converter raises on every other extension list, the rendering
  returns the rasterised paragraph.
\<close>

theorem markdown_extensions_witness:
  "fst (convert_markdown_to_pdf_bytes stub ''# Title'' start)
     = Returns (Some (''%PDF 0001;'' @ html_content ''<p># Title</p>''))
   \<and> calls (snd (convert_markdown_to_pdf_bytes stub ''# Title'' start))
     = [Markdown_markdown ''# Title'' [''extra'', ''nl2br''],
        Pisa_CreatePDF (html_content ''<p># Title</p>'')]
   \<and> markdown stub ''# Title'' [] = Raises ''unexpected extension list''"
proof -
  have m: "''# Title'' \<noteq> []" by simp
  have md: "markdown stub ''# Title'' [''extra'', ''nl2br''] = Returns ''<p># Title</p>''"
    by (simp add: stub_def)
  have pisa: "CreatePDF stub (html_content ''<p># Title</p>'')
               = Returns \<lparr>err = 0, dest = ''%PDF 0001;'' @ html_content ''<p># Title</p>''\<rparr>"
    by (simp add: stub_def stub_pisa_def)
  have other: "markdown stub ''# Title'' [] = Raises ''unexpected extension list''"
    by (simp add: stub_def)
  have "calls start = []" by (simp add: start_def)
  with markdown_extensions [OF m, of stub start] md pisa other
  show ?thesis by simp
qed

text \<open>
  C8. For a non-empty text whose conversion returns a body, the result of the rendering
  stage is what the rasteriser makes of one document: the fixed head, the body and the
  fixed tail. The rasteriser is called on this document and on no other, and a rasteriser
  that answers alike on this document gives the same result. The head holds the
  \<open>style\<close> element, and the stylesheet in it holds these rules: the page is A4 with a
  margin of 2cm; the body is set in Helvetica or a sans-serif face at 11pt with a line
  height of 1.6; \<open>h1\<close> is white (\<open>#ffffff\<close>) on the dark blue-grey \<open>#2c3e50\<close> with a
  padding of 15px; \<open>h2\<close> is the blue \<open>#2980b9\<close> with a bottom border; \<open>h3\<close> is the
  teal \<open>#16a085\<close> in bold; \<open>blockquote\<close> has the light grey background \<open>#f9f9f9\<close>, a
  left border and italics; \<open>code\<close> has the light grey background \<open>#f4f4f4\<close> and is set
  in Courier, a monospace face.
\<close>

theorem fixed_template:
  assumes "m \<noteq> []" and "markdown c m [''extra'', ''nl2br''] = Returns html_body"
  shows "fst (convert_markdown_to_pdf_bytes c m w)
           = (case CreatePDF c (template_head @ html_body @ template_tail) of
                Raises e \<Rightarrow> Raises e
              | Returns status \<Rightarrow>
                  if err status \<noteq> 0 then Returns None else Returns (Some (dest status)))
       \<and> calls (snd (convert_markdown_to_pdf_bytes c m w))
           = calls w @ [Markdown_markdown m [''extra'', ''nl2br''],
                        Pisa_CreatePDF (template_head @ html_body @ template_tail)]
       \<and> (\<forall>c'. markdown c' m [''extra'', ''nl2br''] = Returns html_body
                 \<and> CreatePDF c' (template_head @ html_body @ template_tail)
                     = CreatePDF c (template_head @ html_body @ template_tail) \<longrightarrow>
            fst (convert_markdown_to_pdf_bytes c' m w) = fst (convert_markdown_to_pdf_bytes c m w))
       \<and> sublist (''<style>'' @ stylesheet @ ''</style>'') template_head
       \<and> sublist ''@page { size: A4; margin: 2cm; }'' stylesheet
       \<and> sublist ''body { font-family: Helvetica, sans-serif; font-size: 11pt; line-height: 1.6; color: #333; }'' stylesheet
       \<and> sublist ''h1 { color: #ffffff; background-color: #2c3e50; padding: 15px; text-align: center; }'' stylesheet
       \<and> sublist ''h2 { color: #2980b9; border-bottom: 2px solid #ecf0f1; padding-bottom: 5px; margin-top: 20px; }'' stylesheet
       \<and> sublist ''h3 { color: #16a085; font-weight: bold; margin-top: 15px; }'' stylesheet
       \<and> sublist ''blockquote { background-color: #f9f9f9; border-left: 4px solid #bdc3c7; margin: 15px 0; padding: 10px; font-style: italic; }'' stylesheet
       \<and> sublist ''code { background-color: #f4f4f4; padding: 2px 4px; font-family: Courier; }'' stylesheet"
proof -
  have res: "fst (convert_markdown_to_pdf_bytes c m w)
           = (case CreatePDF c (template_head @ html_body @ template_tail) of
                Raises e \<Rightarrow> Raises e
              | Returns status \<Rightarrow>
                  if err status \<noteq> 0 then Returns None else Returns (Some (dest status)))"
    using assms
    by (simp add: convert_markdown_to_pdf_bytes_def html_content_def Let_def split: outcome.splits)
  have log: "calls (snd (convert_markdown_to_pdf_bytes c m w))
           = calls w @ [Markdown_markdown m [''extra'', ''nl2br''],
                        Pisa_CreatePDF (template_head @ html_body @ template_tail)]"
    using assms
    by (simp add: convert_markdown_to_pdf_bytes_def html_content_def Let_def split: outcome.splits)
  have only: "\<forall>c'. markdown c' m [''extra'', ''nl2br''] = Returns html_body
                 \<and> CreatePDF c' (template_head @ html_body @ template_tail)
                     = CreatePDF c (template_head @ html_body @ template_tail) \<longrightarrow>
            fst (convert_markdown_to_pdf_bytes c' m w) = fst (convert_markdown_to_pdf_bytes c m w)"
    using assms
    by (simp add: convert_markdown_to_pdf_bytes_def html_content_def Let_def split: outcome.splits)
  from res log only show ?thesis
    using stylesheet_in_head
      rules_in_stylesheet [unfolded css_page_def css_body_def css_h1_def css_h2_def css_h3_def
        css_blockquote_def css_code_def]
    by blast
qed

text \<open>
  On the stand-in, whose rasteriser returns the document it was given behind a header, the
  result holds the head, the paragraph and the tail.
\<close>

theorem fixed_template_witness:
  "fst (convert_markdown_to_pdf_bytes stub ''# Title'' start)
     = Returns (Some (''%PDF 0001;'' @ template_head @ ''<p># Title</p>'' @ template_tail))
   \<and> calls (snd (convert_markdown_to_pdf_bytes stub ''# Title'' start))
     = [Markdown_markdown ''# Title'' [''extra'', ''nl2br''],
        Pisa_CreatePDF (template_head @ ''<p># Title</p>'' @ template_tail)]
   \<and> sublist ''h1 { color: #ffffff; background-color: #2c3e50; padding: 15px; text-align: center; }'' stylesheet"
proof -
  have m: "''# Title'' \<noteq> []" by simp
  have md: "markdown stub ''# Title'' [''extra'', ''nl2br''] = Returns ''<p># Title</p>''"
    by (simp add: stub_def)
  have pisa: "CreatePDF stub (template_head @ ''<p># Title</p>'' @ template_tail)
               = Returns \<lparr>err = 0, dest = ''%PDF 0001;'' @ template_head @ ''<p># Title</p>'' @ template_tail\<rparr>"
    by (simp add: stub_def stub_pisa_def)
  have "calls start = []" by (simp add: start_def)
  with fixed_template [OF m md, of start] pisa
  show ?thesis by simp
qed

subsection \<open>The gate in front of the pipeline\<close>

text \<open>
  The statement of C2 as it stands, that with an empty payload and a key the request is
  refused and the transcription is never invoked, fails for a payload of zero bytes. The
  gate of line 133 asks whether a file was uploaded, not whether it holds anything: an
  uploaded file of no bytes with a key passes, and when the button is pressed
  \<open>process_translation\<close> is invoked and uploads the staged empty file.
\<close>

theorem empty_upload_is_transcribed:
  "getvalue empty_upload = []
   \<and> hd (calls (snd (script stub ''secret'' (Some empty_upload) True start))) = Call_process_translation
   \<and> Tempfile_write ''/tmp/tmpk3x9.pdf'' [] \<in> set (calls (snd (script stub ''secret'' (Some empty_upload) True start)))
   \<and> Client_files_upload ''/tmp/tmpk3x9.pdf'' \<in> set (calls (snd (script stub ''secret'' (Some empty_upload) True start)))"
  by (simp add: script_def stage_defs convert_markdown_to_pdf_bytes_def truthy_def
      stub_def stub_pisa_def start_def empty_upload_def)

text \<open>
  C2, amended. The gate refuses exactly when no file is uploaded or the key is empty.
  In that case, pressed button or not, the script ends normally without any call, so
  \<open>process_translation\<close> is never invoked, and the files on disk are untouched; in
  particular so with no uploaded file and a key. In the other case, a file uploaded and a
  key given, the request passes: with the button pressed the next call is the invocation
  of \<open>process_translation\<close>.
\<close>

theorem intake_gate:
  "(f = None \<or> k = [] \<longrightarrow>
        fst (script c k f b w) = Returns ()
        \<and> calls (snd (script c k f b w)) = calls w
        \<and> files (snd (script c k f b w)) = files w)
   \<and> (f \<noteq> None \<and> k \<noteq> [] \<longrightarrow>
        prefix (calls w @ [Call_process_translation]) (calls (snd (script c k f True w))))"
proof -
  have gate: "f = None \<or> k = [] \<Longrightarrow>
        fst (script c k f b w) = Returns ()
        \<and> calls (snd (script c k f b w)) = calls w
        \<and> files (snd (script c k f b w)) = files w"
    by (auto simp: script_def)
  have pass: "prefix (calls w @ [Call_process_translation]) (calls (snd (script c k f True w)))"
    if "f \<noteq> None \<and> k \<noteq> []"
  proof -
    from that obtain u where f: "f = Some u" and k: "k \<noteq> []" by auto
    let ?w1 = "record_calls [Call_process_translation]
                 (emit [St_success (''File uploaded: '' @ name u), St_button ''Translate & Convert''] w)"
    obtain r w2 where pt: "process_translation c k u ?w1 = (r, w2)"
      by (cases "process_translation c k u ?w1")
    have p2: "prefix (calls w @ [Call_process_translation]) (calls w2)"
      using process_translation_calls [of ?w1 c k u] pt by simp
    let ?w3 = "\<lambda>t. record_calls [Call_convert_markdown_to_pdf_bytes t]
               (emit [St_subheader ''Translation Preview'', St_markdown t] w2)"
    have p4: "prefix (calls w @ [Call_process_translation])
                (calls (snd (convert_markdown_to_pdf_bytes c t (?w3 t))))" for t
    proof -
      have "prefix (calls w2) (calls (?w3 t))" by simp
      with p2 have "prefix (calls w @ [Call_process_translation]) (calls (?w3 t))"
        by (rule prefix_order.trans)
      then show ?thesis
        using render_calls [of "?w3 t" c t] by (rule prefix_order.trans)
    qed
    show ?thesis
    proof (cases r)
      case (Raises e)
      then show ?thesis using f k pt p2 by (simp add: script_def)
    next
      case (Returns tt)
      show ?thesis
      proof (cases "truthy tt")
        case False
        then show ?thesis using f k pt p2 Returns by (simp add: script_def)
      next
        case True
        obtain r4 w4 where cv: "convert_markdown_to_pdf_bytes c (the tt) (?w3 (the tt)) = (r4, w4)"
          by (cases "convert_markdown_to_pdf_bytes c (the tt) (?w3 (the tt))")
        have "prefix (calls w @ [Call_process_translation]) (calls w4)"
          using p4 [of "the tt"] cv by simp
        then show ?thesis
          using f k pt Returns True cv
          by (simp add: script_def split: outcome.splits option.splits)
      qed
    qed
  qed
  from gate pass show ?thesis by blast
qed

theorem intake_gate_witness:
  "calls (snd (script stub ''secret'' None True start)) = []
   \<and> calls (snd (script stub [] (Some handwritten) True start)) = []
   \<and> prefix [Call_process_translation] (calls (snd (script stub ''secret'' (Some handwritten) True start)))"
  using intake_gate [of None "''secret''" stub True start]
    intake_gate [of "Some handwritten" "[]" stub True start]
    intake_gate [of "Some handwritten" "''secret''" stub True start]
  by (simp add: start_def)

end
